theory Spec2Isabelle
  imports Main
begin

section \<open>Sequence generator (PL/pgSQL functions \<open>generate_*_number\<close>)\<close>

text \<open>
  The four generators are PL/pgSQL functions over one text column of one table.  The
  column is modelled as the list of its values (\<open>TEXT UNIQUE NOT NULL\<close>).  Errors that
  PostgreSQL raises while the function runs are values of \<open>sql_error\<close>.
\<close>

datatype sql_error =
    Ambiguous_column string
  | Integer_out_of_range
  | Invalid_integer_syntax
  | Unique_violation

text \<open>The character class \<open>[0-9]\<close> (and \<open>\d\<close>) on single-byte characters.\<close>

definition is_digit :: "char \<Rightarrow> bool" where
  "is_digit c = (c \<in> set ''0123456789'')"

definition digit_val :: "char \<Rightarrow> nat" where
  "digit_val c = of_char c - 48"

definition digit_char :: "nat \<Rightarrow> char" where
  "digit_char d = ''0123456789'' ! d"

text \<open>The regular expressions \<open>^INV-[0-9]+$\<close>, \<open>^ORD-[0-9]+$\<close>, \<open>^PAY-[0-9]+$\<close> and
  \<open>^PO-\d+$\<close>: the prefix, then one or more digits, then the end of the string.\<close>

definition matches_family :: "string \<Rightarrow> string \<Rightarrow> bool" where
  "matches_family pfx s =
     (take (length pfx) s = pfx \<and> drop (length pfx) s \<noteq> [] \<and>
      list_all is_digit (drop (length pfx) s))"

text \<open>\<open>SUBSTRING(s FROM 5)\<close>: the string from its fifth character on.\<close>

definition substring_from :: "string \<Rightarrow> nat \<Rightarrow> string" where
  "substring_from s k = drop (k - 1) s"

text \<open>\<open>SUBSTRING(s FROM 'PO-(\d+)')\<close>: the parenthesised group of the leftmost match of the
  pattern, the digits taken greedily; \<open>NULL\<close> when the pattern matches nowhere.\<close>

fun substring_po :: "string \<Rightarrow> string option" where
  "substring_po [] = None"
| "substring_po (c # cs) =
     (if take 3 (c # cs) = ''PO-'' \<and> takeWhile is_digit (drop 3 (c # cs)) \<noteq> []
      then Some (takeWhile is_digit (drop 3 (c # cs)))
      else substring_po cs)"

text \<open>\<open>CAST(text AS INTEGER)\<close>: a decimal numeral as a 32-bit signed integer; a value above
  \<open>2147483647\<close> raises "value out of range for type integer".\<close>

definition parse_digits :: "string \<Rightarrow> nat" where
  "parse_digits s = foldl (\<lambda>n c. 10 * n + digit_val c) 0 s"

definition int4_max :: int where
  "int4_max = 2147483647"

definition cast_integer :: "string \<Rightarrow> sql_error + int" where
  "cast_integer s =
     (if s = [] \<or> \<not> list_all is_digit s then Inl Invalid_integer_syntax
      else if int (parse_digits s) > int4_max then Inl Integer_out_of_range
      else Inr (int (parse_digits s)))"

text \<open>The aggregate \<open>MAX\<close> over the casts of the selected rows.  A row whose cast raises
  aborts the query; \<open>NULL\<close> inputs are skipped; no input at all gives \<open>NULL\<close>.\<close>

fun max_cast :: "string option list \<Rightarrow> sql_error + int option" where
  "max_cast [] = Inr None"
| "max_cast (None # rest) = max_cast rest"
| "max_cast (Some s # rest) =
     (case cast_integer s of
        Inl e \<Rightarrow> Inl e
      | Inr v \<Rightarrow>
          (case max_cast rest of
             Inl e \<Rightarrow> Inl e
           | Inr None \<Rightarrow> Inr (Some v)
           | Inr (Some m) \<Rightarrow> Inr (Some (max v m))))"

text \<open>\<open>COALESCE(MAX(...), 0) + 1\<close> in type \<open>INTEGER\<close>: the addition raises on overflow.\<close>

definition coalesce_plus_one :: "int option \<Rightarrow> sql_error + int" where
  "coalesce_plus_one m =
     (let v = (case m of None \<Rightarrow> 0 | Some x \<Rightarrow> x)
      in if v + 1 > int4_max then Inl Integer_out_of_range else Inr (v + 1))"

text \<open>\<open>next_number::TEXT\<close>: the decimal digits of a non-negative integer.\<close>

function text_of_nat :: "nat \<Rightarrow> string" where
  "text_of_nat n =
     (if n < 10 then [digit_char n] else text_of_nat (n div 10) @ [digit_char (n mod 10)])"
  by pat_completeness auto
termination
  by (relation "measure id") auto

declare text_of_nat.simps [simp del]

text \<open>\<open>LPAD(string, length, fill)\<close> with a one-character fill: shorter strings are filled
  on the left; a string longer than \<open>length\<close> is truncated on the right to \<open>length\<close>
  characters.\<close>

definition lpad :: "string \<Rightarrow> nat \<Rightarrow> char \<Rightarrow> string" where
  "lpad s n fill =
     (if length s \<ge> n then take n s else replicate (n - length s) fill @ s)"

text \<open>Name resolution of a PL/pgSQL block: an unqualified name inside an SQL statement that
  is both a declared variable of the block and a column of the queried table raises
  "column reference is ambiguous" (the default \<open>plpgsql.variable_conflict = error\<close>).  A
  table-qualified reference (\<open>po.po_number\<close>) is always the column.\<close>

definition resolve_reference :: "string list \<Rightarrow> string list \<Rightarrow> string \<Rightarrow> sql_error + unit" where
  "resolve_reference declared columns name =
     (if name \<in> set declared \<and> name \<in> set columns then Inl (Ambiguous_column name)
      else Inr ())"

text \<open>The \<open>SELECT ... INTO next_number\<close> statement shared by the four functions: filter by
  the family's pattern, extract and cast the suffix, take the maximum, add one.\<close>

definition select_next_number ::
  "string \<Rightarrow> (string \<Rightarrow> string option) \<Rightarrow> string list \<Rightarrow> sql_error + int" where
  "select_next_number pfx extract rows =
     (case max_cast (map extract (filter (matches_family pfx) rows)) of
        Inl e \<Rightarrow> Inl e
      | Inr m \<Rightarrow> coalesce_plus_one m)"

definition invoices_columns :: "string list" where
  "invoices_columns =
     [''id'', ''invoice_number'', ''customer_id'', ''customer_name'', ''customer_email'',
      ''customer_address'', ''issue_date'', ''due_date'', ''subtotal'', ''tax_rate'',
      ''tax_amount'', ''discount_amount'', ''total_amount'', ''paid_amount'', ''status'',
      ''notes'', ''terms'', ''created_by'', ''created_at'', ''updated_at'']"

definition sales_orders_columns :: "string list" where
  "sales_orders_columns =
     [''id'', ''order_number'', ''customer_id'', ''customer_name'', ''order_date'',
      ''expected_delivery_date'', ''subtotal'', ''tax_amount'', ''total_amount'', ''status'',
      ''shipping_address'', ''notes'', ''created_by'', ''created_at'', ''updated_at'']"

definition payments_columns :: "string list" where
  "payments_columns =
     [''id'', ''payment_number'', ''invoice_id'', ''customer_id'', ''amount'',
      ''payment_method'', ''payment_date'', ''status'', ''transaction_id'', ''notes'',
      ''created_by'', ''created_at'', ''updated_at'']"

text \<open>\<open>generate_invoice_number\<close>: declares \<open>next_number\<close> and \<open>invoice_number\<close>, and its
  query names the column \<open>invoice_number\<close> unqualified.  The argument is the column
  \<open>invoices.invoice_number\<close>.\<close>

definition generate_invoice_number :: "string list \<Rightarrow> sql_error + string" where
  "generate_invoice_number rows =
     (case resolve_reference [''next_number'', ''invoice_number''] invoices_columns
             ''invoice_number'' of
        Inl e \<Rightarrow> Inl e
      | Inr _ \<Rightarrow>
          (case select_next_number ''INV-'' (\<lambda>s. Some (substring_from s 5)) rows of
             Inl e \<Rightarrow> Inl e
           | Inr next_number \<Rightarrow> Inr (''INV-'' @ lpad (text_of_nat (nat next_number)) 3 CHR ''0'')))"

definition generate_order_number :: "string list \<Rightarrow> sql_error + string" where
  "generate_order_number rows =
     (case resolve_reference [''next_number'', ''order_number''] sales_orders_columns
             ''order_number'' of
        Inl e \<Rightarrow> Inl e
      | Inr _ \<Rightarrow>
          (case select_next_number ''ORD-'' (\<lambda>s. Some (substring_from s 5)) rows of
             Inl e \<Rightarrow> Inl e
           | Inr next_number \<Rightarrow> Inr (''ORD-'' @ lpad (text_of_nat (nat next_number)) 3 CHR ''0'')))"

definition generate_payment_number :: "string list \<Rightarrow> sql_error + string" where
  "generate_payment_number rows =
     (case resolve_reference [''next_number'', ''payment_number''] payments_columns
             ''payment_number'' of
        Inl e \<Rightarrow> Inl e
      | Inr _ \<Rightarrow>
          (case select_next_number ''PAY-'' (\<lambda>s. Some (substring_from s 5)) rows of
             Inl e \<Rightarrow> Inl e
           | Inr next_number \<Rightarrow> Inr (''PAY-'' @ lpad (text_of_nat (nat next_number)) 3 CHR ''0'')))"

text \<open>\<open>generate_po_number\<close> (the last migration's version): the variable is
  \<open>v_po_number\<close> and the column is referenced as \<open>po.po_number\<close>, so nothing is ambiguous.\<close>

definition generate_po_number :: "string list \<Rightarrow> sql_error + string" where
  "generate_po_number rows =
     (case select_next_number ''PO-'' substring_po rows of
        Inl e \<Rightarrow> Inl e
      | Inr next_number \<Rightarrow> Inr (''PO-'' @ lpad (text_of_nat (nat next_number)) 6 CHR ''0''))"

text \<open>Persisting a generated identifier: the number column is \<open>UNIQUE\<close>.\<close>

definition persist_number :: "string \<Rightarrow> string list \<Rightarrow> sql_error + string list" where
  "persist_number s rows = (if s \<in> set rows then Inl Unique_violation else Inr (rows @ [s]))"


text \<open>\<open>createPurchaseOrder\<close> asks for a number and then inserts the header under it;
  \<open>generate_and_persist gen n rows\<close> does so \<open>n\<close> times in a row and returns the numbers
  handed out together with the column afterwards.\<close>

fun generate_and_persist ::
  "(string list \<Rightarrow> sql_error + string) \<Rightarrow> nat \<Rightarrow> string list \<Rightarrow>
     sql_error + (string list \<times> string list)" where
  "generate_and_persist gen 0 rows = Inr ([], rows)"
| "generate_and_persist gen (Suc n) rows =
     (case gen rows of
        Inl e \<Rightarrow> Inl e
      | Inr s \<Rightarrow>
          (case persist_number s rows of
             Inl e \<Rightarrow> Inl e
           | Inr rows' \<Rightarrow>
               (case generate_and_persist gen n rows' of
                  Inl e \<Rightarrow> Inl e
                | Inr (ids, rows'') \<Rightarrow> Inr (s # ids, rows''))))"

text \<open>The specification's m: the largest numeric suffix among the stored identifiers that
  match the family's pattern, and \<open>0\<close> when none does.  The generators are compared with
  it below.\<close>

definition spec_max_suffix :: "string \<Rightarrow> string list \<Rightarrow> nat" where
  "spec_max_suffix pfx rows =
     foldr max
       (map (\<lambda>s. parse_digits (drop (length pfx) s)) (filter (matches_family pfx) rows)) 0"

section \<open>The database client as the hooks see it\<close>

text \<open>
  Every call of the client resolves to a pair \<open>{data, error}\<close>; it does not throw.  A call
  can fail for a reason outside the program (network, permissions, storage); \<open>env c\<close> says
  whether the call \<open>c\<close> does.  A failed statement changes nothing.  A hook is a function from
  the database to the outcome of its promise (\<open>Inl\<close>: rejected with the error, \<open>Inr\<close>:
  resolved with the value) together with the database afterwards.
\<close>

datatype table =
    Products | Stock_movements
  | Invoices | Invoice_items
  | Sales_orders | Sales_order_items
  | Purchase_orders | Purchase_order_items

datatype call = Select table | Insert table | Update table | Delete table

datatype client_error =
    Storage_error call
  | Foreign_key_violation
  | Not_single_row
  | Out_of_integer_range

type_synonym env = "call \<Rightarrow> bool"

definition in_int4 :: "int \<Rightarrow> bool" where
  "in_int4 x = (- 2147483648 \<le> x \<and> x \<le> 2147483647)"

subsection \<open>Stock ledger (\<open>useStockMovements\<close>)\<close>

record product =
  p_name :: string
  p_sku :: string
  stock :: int

datatype movement_type = Purchase | Sale | Adjustment | Return | Transfer

record stock_movement =
  product_id :: string
  product_name :: string
  product_sku :: "string option"
  movement_type :: movement_type
  quantity_change :: int
  stock_before :: int
  stock_after :: int
  reason :: "string option"
  reference_id :: "string option"
  reference_type :: "string option"
  movement_date :: string
  created_by :: "string option"

text \<open>The tables \<open>products\<close> (by primary key) and \<open>stock_movements\<close> (rows with their
  generated ids, in insertion order).  The quantity columns are \<open>INTEGER\<close>, and
  \<open>stock_movements.product_id\<close> references \<open>products(id)\<close>.\<close>

record ledger_db =
  products :: "string \<rightharpoonup> product"
  stock_movements :: "(nat \<times> stock_movement) list"
  next_id :: nat

text \<open>\<open>from('stock_movements').insert([payload]).select().single()\<close>\<close>

definition insert_stock_movement ::
  "env \<Rightarrow> stock_movement \<Rightarrow> ledger_db \<Rightarrow> client_error + ((nat \<times> stock_movement) \<times> ledger_db)" where
  "insert_stock_movement env payload db =
     (if env (Insert Stock_movements) then Inl (Storage_error (Insert Stock_movements))
      else if product_id payload \<notin> dom (products db) then Inl Foreign_key_violation
      else if \<not> (in_int4 (quantity_change payload) \<and> in_int4 (stock_before payload) \<and>
                  in_int4 (stock_after payload)) then Inl Out_of_integer_range
      else Inr ((next_id db, payload),
                db\<lparr>stock_movements := stock_movements db @ [(next_id db, payload)],
                   next_id := Suc (next_id db)\<rparr>))"

text \<open>\<open>from('products').update({ stock: v }).eq('id', pid)\<close>: no matching row is not an
  error.\<close>

definition update_product_stock ::
  "env \<Rightarrow> string \<Rightarrow> int \<Rightarrow> ledger_db \<Rightarrow> client_error + ledger_db" where
  "update_product_stock env pid v db =
     (if env (Update Products) then Inl (Storage_error (Update Products))
      else if \<not> in_int4 v then Inl Out_of_integer_range
      else Inr (case products db pid of
                  None \<Rightarrow> db
                | Some p \<Rightarrow> db\<lparr>products := (products db)(pid \<mapsto> p\<lparr>stock := v\<rparr>)\<rparr>))"

text \<open>\<open>createStockMovement(movementData)\<close>; \<open>user\<close> is the id of the signed-in user, if
  any.  The refetch of the list and the toasts after the two writes touch the component's
  state only, and the refetch catches its own errors.\<close>

definition createStockMovement ::
  "env \<Rightarrow> string option \<Rightarrow> stock_movement \<Rightarrow> ledger_db \<Rightarrow>
     (client_error + (nat \<times> stock_movement)) \<times> ledger_db" where
  "createStockMovement env user movementData db =
     (let stockMovementPayload = movementData\<lparr>created_by := user\<rparr>
      in case insert_stock_movement env stockMovementPayload db of
           Inl e \<Rightarrow> (Inl e, db)
         | Inr (newMovement, db1) \<Rightarrow>
             (case update_product_stock env (product_id movementData)
                     (stock_after movementData) db1 of
                Inl updateError \<Rightarrow> (Inl updateError, db1)
              | Inr db2 \<Rightarrow> (Inr newMovement, db2)))"

text \<open>\<open>createStockAdjustment(productId, productName, productSku, currentStock, newStock,
  reason)\<close>; \<open>now\<close> is \<open>new Date().toISOString()\<close>.\<close>

definition createStockAdjustment ::
  "env \<Rightarrow> string option \<Rightarrow> string \<Rightarrow> string \<Rightarrow> string option \<Rightarrow> int \<Rightarrow> int \<Rightarrow> string \<Rightarrow>
     string \<Rightarrow> ledger_db \<Rightarrow> (client_error + unit) \<times> ledger_db" where
  "createStockAdjustment env user productId productName productSku currentStock newStock
       reason' now db =
     (let quantityChange = newStock - currentStock
      in case createStockMovement env user
                \<lparr>product_id = productId, product_name = productName,
                 product_sku = productSku, movement_type = Adjustment,
                 quantity_change = quantityChange, stock_before = currentStock,
                 stock_after = newStock, reason = Some reason', reference_id = None,
                 reference_type = None, movement_date = now, created_by = None\<rparr> db of
           (Inl e, db') \<Rightarrow> (Inl e, db')
         | (Inr _, db') \<Rightarrow> (Inr (), db'))"

text \<open>\<open>updateStockMovement(id, updates)\<close>: \<open>updates\<close> is a \<open>Partial<StockMovement>\<close>, the
  fields it holds replace the row's; it is modelled as that replacement, a function on rows.
  The constraints of the table are checked on the row written.\<close>

definition updateStockMovement ::
  "env \<Rightarrow> nat \<Rightarrow> (stock_movement \<Rightarrow> stock_movement) \<Rightarrow> ledger_db \<Rightarrow>
     (client_error + unit) \<times> ledger_db" where
  "updateStockMovement env id' updates db =
     (if env (Update Stock_movements) then (Inl (Storage_error (Update Stock_movements)), db)
      else if \<exists>(i, r) \<in> set (stock_movements db).
                 i = id' \<and> product_id (updates r) \<notin> dom (products db)
        then (Inl Foreign_key_violation, db)
      else if \<exists>(i, r) \<in> set (stock_movements db).
                 i = id' \<and> \<not> (in_int4 (quantity_change (updates r)) \<and>
                   in_int4 (stock_before (updates r)) \<and> in_int4 (stock_after (updates r)))
        then (Inl Out_of_integer_range, db)
      else (Inr (),
            db\<lparr>stock_movements :=
                 map (\<lambda>(i, r). if i = id' then (i, updates r) else (i, r))
                   (stock_movements db)\<rparr>))"

text \<open>\<open>deleteStockMovement(id)\<close>\<close>

definition deleteStockMovement ::
  "env \<Rightarrow> nat \<Rightarrow> ledger_db \<Rightarrow> (client_error + unit) \<times> ledger_db" where
  "deleteStockMovement env id' db =
     (if env (Delete Stock_movements) then (Inl (Storage_error (Delete Stock_movements)), db)
      else (Inr (), db\<lparr>stock_movements := filter (\<lambda>(i, r). i \<noteq> id') (stock_movements db)\<rparr>))"

subsection \<open>Documents and their line items (\<open>useInvoices\<close>, \<open>useSalesOrders\<close>,
  \<open>usePurchaseOrders\<close>)\<close>

text \<open>
  A document family is a header table (by primary key) and a line-item table whose rows
  carry the id of their header (a foreign key).  What a header or a line holds beyond that
  plays no part in the hooks below, so both are type parameters.
\<close>

record ('h, 'i) documents =
  headers :: "string \<rightharpoonup> 'h"
  items :: "(string \<times> 'i) list"

text \<open>\<open>from(items).delete().eq(fk, id)\<close> and \<open>from(items).insert(rows)\<close> with the foreign
  key of every row set to \<open>id\<close>.\<close>

definition delete_items ::
  "env \<Rightarrow> table \<Rightarrow> string \<Rightarrow> ('h, 'i) documents \<Rightarrow> client_error + ('h, 'i) documents" where
  "delete_items env t id' db =
     (if env (Delete t) then Inl (Storage_error (Delete t))
      else Inr (db\<lparr>items := filter (\<lambda>(d, it). d \<noteq> id') (items db)\<rparr>))"

definition insert_items ::
  "env \<Rightarrow> table \<Rightarrow> string \<Rightarrow> 'i list \<Rightarrow> ('h, 'i) documents \<Rightarrow>
     client_error + ('h, 'i) documents" where
  "insert_items env t id' rows db =
     (if env (Insert t) then Inl (Storage_error (Insert t))
      else if rows \<noteq> [] \<and> id' \<notin> dom (headers db) then Inl Foreign_key_violation
      else Inr (db\<lparr>items := items db @ map (\<lambda>it. (id', it)) rows\<rparr>))"

definition items_of :: "string \<Rightarrow> ('h, 'i) documents \<Rightarrow> 'i list" where
  "items_of id' db = map snd (filter (\<lambda>(d, it). d = id') (items db))"

text \<open>\<open>fetchInvoiceById(id)\<close>: the body of the \<open>try\<close>, then the \<open>catch\<close> that turns every
  error into \<open>{ invoice: null, items: [] }\<close>.\<close>

definition fetchInvoiceById_try ::
  "env \<Rightarrow> ('h, 'i) documents \<Rightarrow> string \<Rightarrow> client_error + ('h option \<times> 'i list)" where
  "fetchInvoiceById_try env db id' =
     (if env (Select Invoices) then Inl (Storage_error (Select Invoices))
      else case headers db id' of
             None \<Rightarrow> Inl Not_single_row
           | Some invoiceData \<Rightarrow>
               (if env (Select Invoice_items) then Inl (Storage_error (Select Invoice_items))
                else Inr (Some invoiceData, items_of id' db)))"

definition fetchInvoiceById ::
  "env \<Rightarrow> ('h, 'i) documents \<Rightarrow> string \<Rightarrow> client_error + ('h option \<times> 'i list)" where
  "fetchInvoiceById env db id' =
     (case fetchInvoiceById_try env db id' of
        Inl err \<Rightarrow> Inr (None, [])
      | Inr r \<Rightarrow> Inr r)"

text \<open>\<open>updateInvoice(id, invoiceData)\<close>: \<open>invoice\<close> is the payload without its \<open>items\<close>
  (a replacement of header fields, as above), \<open>items'\<close> the item list if the payload has
  one.  The header update ends in \<open>.select().single()\<close>, which fails unless exactly one
  row was updated.\<close>

definition updateInvoice ::
  "env \<Rightarrow> string \<Rightarrow> ('h \<Rightarrow> 'h) \<Rightarrow> 'i list option \<Rightarrow> ('h, 'i) documents \<Rightarrow>
     (client_error + 'h) \<times> ('h, 'i) documents" where
  "updateInvoice env id' invoice items' db =
     (if env (Update Invoices) then (Inl (Storage_error (Update Invoices)), db)
      else case headers db id' of
             None \<Rightarrow> (Inl Not_single_row, db)
           | Some h \<Rightarrow>
               (let updatedInvoice = invoice h;
                    db1 = db\<lparr>headers := (headers db)(id' \<mapsto> updatedInvoice)\<rparr>
                in case items' of
                     None \<Rightarrow> (Inr updatedInvoice, db1)
                   | Some its \<Rightarrow>
                       (case delete_items env Invoice_items id' db1 of
                          Inl deleteError \<Rightarrow> (Inl deleteError, db1)
                        | Inr db2 \<Rightarrow>
                            (case insert_items env Invoice_items id' its db2 of
                               Inl itemsError \<Rightarrow> (Inl itemsError, db2)
                             | Inr db3 \<Rightarrow> (Inr updatedInvoice, db3)))))"

text \<open>\<open>updateSalesOrder(id, updates)\<close>: the header update has no \<open>.single()\<close>, so updating
  no row is not an error; the result of the delete is awaited and not looked at; the insert
  is skipped for an empty list.\<close>

definition update_header ::
  "env \<Rightarrow> table \<Rightarrow> string \<Rightarrow> ('h \<Rightarrow> 'h) \<Rightarrow> ('h, 'i) documents \<Rightarrow>
     client_error + ('h, 'i) documents" where
  "update_header env t id' upd db =
     (if env (Update t) then Inl (Storage_error (Update t))
      else Inr (case headers db id' of
                  None \<Rightarrow> db
                | Some h \<Rightarrow> db\<lparr>headers := (headers db)(id' \<mapsto> upd h)\<rparr>))"

definition updateSalesOrder ::
  "env \<Rightarrow> string \<Rightarrow> ('h \<Rightarrow> 'h) \<Rightarrow> 'i list option \<Rightarrow> ('h, 'i) documents \<Rightarrow>
     (client_error + unit) \<times> ('h, 'i) documents" where
  "updateSalesOrder env id' orderUpdates items' db =
     (case update_header env Sales_orders id' orderUpdates db of
        Inl orderError \<Rightarrow> (Inl orderError, db)
      | Inr db1 \<Rightarrow>
          (case items' of
             None \<Rightarrow> (Inr (), db1)
           | Some its \<Rightarrow>
               (let db2 = (case delete_items env Sales_order_items id' db1 of
                             Inl _ \<Rightarrow> db1 | Inr d \<Rightarrow> d)
                in if length its > 0
                   then (case insert_items env Sales_order_items id' its db2 of
                           Inl itemsError \<Rightarrow> (Inl itemsError, db2)
                         | Inr db3 \<Rightarrow> (Inr (), db3))
                   else (Inr (), db2))))"

text \<open>\<open>updatePurchaseOrder(id, updates)\<close>: the same shape on the purchase-order tables.\<close>

definition updatePurchaseOrder ::
  "env \<Rightarrow> string \<Rightarrow> ('h \<Rightarrow> 'h) \<Rightarrow> 'i list option \<Rightarrow> ('h, 'i) documents \<Rightarrow>
     (client_error + unit) \<times> ('h, 'i) documents" where
  "updatePurchaseOrder env id' orderUpdates items' db =
     (case update_header env Purchase_orders id' orderUpdates db of
        Inl poError \<Rightarrow> (Inl poError, db)
      | Inr db1 \<Rightarrow>
          (case items' of
             None \<Rightarrow> (Inr (), db1)
           | Some its \<Rightarrow>
               (let db2 = (case delete_items env Purchase_order_items id' db1 of
                             Inl _ \<Rightarrow> db1 | Inr d \<Rightarrow> d)
                in if length its > 0
                   then (case insert_items env Purchase_order_items id' its db2 of
                           Inl itemsError \<Rightarrow> (Inl itemsError, db2)
                         | Inr db3 \<Rightarrow> (Inr (), db3))
                   else (Inr (), db2))))"


section \<open>Customer rollup (trigger \<open>update_customer_totals\<close>)\<close>

text \<open>
  The columns the trigger reads and writes.  Amounts are \<open>DECIMAL(n,2)\<close> and are held in
  hundredths; a date is a day number; \<open>issue_date\<close> is nullable.
\<close>

datatype invoice_status = Draft | Sent | Paid | Overdue | Cancelled

record invoice =
  inv_customer_id :: string
  inv_issue_date :: "nat option"
  inv_total_amount :: int
  inv_status :: invoice_status

record customer =
  cust_name :: string
  total_orders :: int
  total_spent :: int
  last_order_date :: "nat option"

record sales_db =
  customers :: "string \<rightharpoonup> customer"
  invoices :: "(string \<times> invoice) list"

datatype trigger_error =
    Numeric_field_overflow
  | Integer_overflow
  | Fk_violation
  | Pk_violation

datatype tg_op = INSERT | UPDATE | DELETE

text \<open>The three subqueries of the \<open>SET\<close> list, for the customer \<open>cid\<close>.\<close>

definition count_paid :: "string \<Rightarrow> sales_db \<Rightarrow> int" where
  "count_paid cid db =
     int (length (filter (\<lambda>(i, r). inv_customer_id r = cid \<and> inv_status r = Paid)
                    (invoices db)))"

definition sum_paid :: "string \<Rightarrow> sales_db \<Rightarrow> int" where
  "sum_paid cid db =
     sum_list (map (\<lambda>(i, r). inv_total_amount r)
                 (filter (\<lambda>(i, r). inv_customer_id r = cid \<and> inv_status r = Paid)
                    (invoices db)))"

fun max_date :: "nat option list \<Rightarrow> nat option" where
  "max_date [] = None"
| "max_date (None # ds) = max_date ds"
| "max_date (Some d # ds) = (case max_date ds of None \<Rightarrow> Some d | Some m \<Rightarrow> Some (max d m))"

definition max_issue_date :: "string \<Rightarrow> sales_db \<Rightarrow> nat option" where
  "max_issue_date cid db =
     max_date (map (\<lambda>(i, r). inv_issue_date r)
                 (filter (\<lambda>(i, r). inv_customer_id r = cid) (invoices db)))"

text \<open>\<open>UPDATE customers SET total_orders = ..., total_spent = ..., last_order_date = ...
  WHERE id = cid\<close>.  \<open>total_orders\<close> is \<open>INTEGER\<close> and \<open>total_spent\<close> is \<open>DECIMAL(10,2)\<close>:
  a value that does not fit raises.\<close>

definition recompute_customer :: "string \<Rightarrow> sales_db \<Rightarrow> trigger_error + sales_db" where
  "recompute_customer cid db =
     (case customers db cid of
        None \<Rightarrow> Inr db
      | Some c \<Rightarrow>
          (if count_paid cid db > 2147483647 then Inl Integer_overflow
           else if \<bar>sum_paid cid db\<bar> \<ge> 10 ^ 10 then Inl Numeric_field_overflow
           else Inr (db\<lparr>customers := (customers db)(cid \<mapsto>
                          c\<lparr>total_orders := count_paid cid db,
                            total_spent := sum_paid cid db,
                            last_order_date := max_issue_date cid db\<rparr>)\<rparr>)))"

text \<open>The trigger function, run \<open>AFTER\<close> the row change, \<open>FOR EACH ROW\<close>: \<open>new\<close> and \<open>old\<close>
  are the row after and before (\<open>NULL\<close> for \<open>DELETE\<close> and \<open>INSERT\<close> respectively).\<close>

definition update_customer_totals ::
  "tg_op \<Rightarrow> invoice option \<Rightarrow> invoice option \<Rightarrow> sales_db \<Rightarrow> trigger_error + sales_db" where
  "update_customer_totals op new old db =
     (case (if op = INSERT \<or> op = UPDATE
            then (case new of None \<Rightarrow> Inr db
                  | Some n \<Rightarrow> recompute_customer (inv_customer_id n) db)
            else Inr db) of
        Inl e \<Rightarrow> Inl e
      | Inr db1 \<Rightarrow>
          (if op = DELETE
           then (case old of None \<Rightarrow> Inr db1
                 | Some ol \<Rightarrow> recompute_customer (inv_customer_id ol) db1)
           else Inr db1))"

text \<open>The three statements on \<open>invoices\<close> that fire the trigger, each on one row (the hooks
  insert one row and select by primary key).  A statement whose trigger raises is rolled
  back.  \<open>invoices.customer_id\<close> references \<open>customers(id)\<close>.\<close>

definition insert_invoice :: "string \<Rightarrow> invoice \<Rightarrow> sales_db \<Rightarrow> trigger_error + sales_db" where
  "insert_invoice id' row db =
     (if id' \<in> fst ` set (invoices db) then Inl Pk_violation
      else if inv_customer_id row \<notin> dom (customers db) then Inl Fk_violation
      else update_customer_totals INSERT (Some row) None
             (db\<lparr>invoices := invoices db @ [(id', row)]\<rparr>))"

definition update_invoice ::
  "string \<Rightarrow> (invoice \<Rightarrow> invoice) \<Rightarrow> sales_db \<Rightarrow> trigger_error + sales_db" where
  "update_invoice id' upd db =
     (case map_of (invoices db) id' of
        None \<Rightarrow> Inr db
      | Some old \<Rightarrow>
          (if inv_customer_id (upd old) \<notin> dom (customers db) then Inl Fk_violation
           else update_customer_totals UPDATE (Some (upd old)) (Some old)
                  (db\<lparr>invoices := map (\<lambda>(i, r). if i = id' then (i, upd r) else (i, r))
                                     (invoices db)\<rparr>)))"

definition delete_invoice :: "string \<Rightarrow> sales_db \<Rightarrow> trigger_error + sales_db" where
  "delete_invoice id' db =
     (case map_of (invoices db) id' of
        None \<Rightarrow> Inr db
      | Some old \<Rightarrow>
          update_customer_totals DELETE None (Some old)
            (db\<lparr>invoices := filter (\<lambda>(i, r). i \<noteq> id') (invoices db)\<rparr>))"

text \<open>What the cached columns of customer \<open>cid\<close> should be, as a function of the invoice
  table alone: the number and the sum of the customer's paid invoices, and the latest issue
  date among all of the customer's invoices.\<close>

definition customer_consistent :: "sales_db \<Rightarrow> string \<Rightarrow> bool" where
  "customer_consistent db cid =
     (case customers db cid of
        None \<Rightarrow> True
      | Some c \<Rightarrow>
          total_orders c = count_paid cid db \<and>
          total_spent c = sum_paid cid db \<and>
          last_order_date c = max_issue_date cid db)"


section \<open>Concrete states used in the examples\<close>

definition no_faults :: env where
  "no_faults = (\<lambda>c. False)"

definition ledger0 :: ledger_db where
  "ledger0 = \<lparr>products = [''p1'' \<mapsto> \<lparr>p_name = ''Widget'', p_sku = ''W-1'', stock = 50\<rparr>],
              stock_movements = [], next_id = 0\<rparr>"

definition inconsistent_movement :: stock_movement where
  "inconsistent_movement =
     \<lparr>product_id = ''p1'', product_name = ''Widget'', product_sku = Some ''W-1'',
      movement_type = Purchase, quantity_change = 5, stock_before = 50, stock_after = 99,
      reason = None, reference_id = None, reference_type = None,
      movement_date = ''2025-08-01T00:00:00.000Z'', created_by = None\<rparr>"

definition purchase_movement :: stock_movement where
  "purchase_movement =
     \<lparr>product_id = ''p1'', product_name = ''Widget'', product_sku = Some ''W-1'',
      movement_type = Purchase, quantity_change = 5, stock_before = 50, stock_after = 55,
      reason = None, reference_id = None, reference_type = None,
      movement_date = ''2025-08-01T00:00:00.000Z'', created_by = None\<rparr>"

text \<open>One document with five line items (numbered 1 to 5).\<close>

definition docs5 :: "(string, nat) documents" where
  "docs5 = \<lparr>headers = [''d1'' \<mapsto> ''header''],
            items = [(''d1'', 1), (''d1'', 2), (''d1'', 3), (''d1'', 4), (''d1'', 5)]\<rparr>"

text \<open>Two documents whose line items are interleaved in the table: 1 and 3 belong to
  \<open>d1\<close>, 2 belongs to \<open>d2\<close>.\<close>

definition docs_two :: "(string, nat) documents" where
  "docs_two = \<lparr>headers = [''d1'' \<mapsto> ''header one'', ''d2'' \<mapsto> ''header two''],
               items = [(''d1'', 1), (''d2'', 2), (''d1'', 3)]\<rparr>"

text \<open>Two customers; customer A has one paid invoice of 100.00 issued on day 5, and the
  cached columns of both agree with the invoice table.\<close>

definition rollup0 :: sales_db where
  "rollup0 =
     \<lparr>customers =
        [''A'' \<mapsto> \<lparr>cust_name = ''Ann'', total_orders = 1, total_spent = 10000,
                     last_order_date = Some 5\<rparr>,
         ''B'' \<mapsto> \<lparr>cust_name = ''Bob'', total_orders = 0, total_spent = 0,
                     last_order_date = None\<rparr>],
      invoices =
        [(''i1'', \<lparr>inv_customer_id = ''A'', inv_issue_date = Some 5,
                   inv_total_amount = 10000, inv_status = Paid\<rparr>)]\<rparr>"

text \<open>The same table after invoice \<open>i1\<close> has been moved to customer B by an update.\<close>

definition rollup1 :: sales_db where
  "rollup1 =
     \<lparr>customers =
        [''A'' \<mapsto> \<lparr>cust_name = ''Ann'', total_orders = 1, total_spent = 10000,
                     last_order_date = Some 5\<rparr>,
         ''B'' \<mapsto> \<lparr>cust_name = ''Bob'', total_orders = 1, total_spent = 10000,
                     last_order_date = Some 5\<rparr>],
      invoices =
        [(''i1'', \<lparr>inv_customer_id = ''B'', inv_issue_date = Some 5,
                   inv_total_amount = 10000, inv_status = Paid\<rparr>)]\<rparr>"

section \<open>Properties of the sequence generator\<close>

lemma replicate_numeral_unfold:
  "replicate (numeral k) x = x # replicate (pred_numeral k) x"
  by (simp add: numeral_eq_Suc)

lemmas generator_defs = replicate_numeral_unfold
  generate_po_number_def generate_invoice_number_def generate_order_number_def
  generate_payment_number_def select_next_number_def matches_family_def is_digit_def
  digit_val_def digit_char_def cast_integer_def parse_digits_def int4_max_def
  coalesce_plus_one_def lpad_def substring_from_def resolve_reference_def
  text_of_nat.simps invoices_columns_def sales_orders_columns_def payments_columns_def
  persist_number_def

subsection \<open>The purchase-order generator within its six digits\<close>

text \<open>
  As long as every stored suffix is below 999999, \<open>generate_po_number\<close> returns \<open>PO-\<close>
  followed by exactly six digits whose value is one more than the largest stored suffix,
  the result is not yet stored, and a run of generate-and-persist steps that stays at or
  below 999999 hands out distinct identifiers with strictly increasing suffixes.
\<close>

lemma substring_po_match:
  assumes "matches_family ''PO-'' s"
  shows "substring_po s = Some (drop 3 s)"
proof -
  from assms have t: "take 3 s = ''PO-''" and ne: "drop 3 s \<noteq> []"
    and dg: "list_all is_digit (drop 3 s)"
    by (simp_all add: matches_family_def numeral_3_eq_3)
  from t obtain c cs where s: "s = c # cs" by (cases s) auto
  from dg have tw: "takeWhile is_digit (drop 3 (c # cs)) = drop 3 (c # cs)"
    unfolding s by (simp add: takeWhile_eq_all_conv list_all_iff)
  have hd: "take 3 (c # cs) = ''PO-''" and tl: "drop 3 (c # cs) \<noteq> []"
    using t ne unfolding s by simp_all
  show ?thesis
    unfolding s by (subst substring_po.simps) (simp only: tw hd tl if_True simp_thms)
qed

lemma max_cast_in_range:
  assumes "\<forall>s \<in> set xs. s \<noteq> [] \<and> list_all is_digit s \<and> int (parse_digits s) \<le> int4_max"
  shows "max_cast (map Some xs)
         = Inr (if xs = [] then None else Some (int (foldr max (map parse_digits xs) 0)))"
  using assms
proof (induction xs)
  case Nil
  then show ?case by simp
next
  case (Cons x xs)
  then have c: "cast_integer x = Inr (int (parse_digits x))"
    by (simp add: cast_integer_def)
  from Cons show ?case by (simp add: c of_nat_max)
qed

lemma length_lpad: "length (lpad s n c) = n"
  by (simp add: lpad_def)

lemma digit_val_digit_char: "d < 10 \<Longrightarrow> digit_val (digit_char d) = d"
  by (auto simp: digit_val_def digit_char_def numeral_eq_Suc less_Suc_eq)

lemma is_digit_digit_char: "d < 10 \<Longrightarrow> is_digit (digit_char d)"
  by (auto simp: is_digit_def digit_char_def numeral_eq_Suc less_Suc_eq)

lemma parse_digits_snoc: "parse_digits (xs @ [c]) = 10 * parse_digits xs + digit_val c"
  by (simp add: parse_digits_def)

lemma parse_text_of_nat: "parse_digits (text_of_nat n) = n"
proof (induction n rule: text_of_nat.induct)
  case (1 n)
  show ?case
  proof (cases "n < 10")
    case True
    then show ?thesis
      by (subst text_of_nat.simps) (simp add: parse_digits_def digit_val_digit_char)
  next
    case False
    with 1 show ?thesis
      by (subst text_of_nat.simps) (simp add: parse_digits_snoc digit_val_digit_char)
  qed
qed

lemma digits_text_of_nat: "list_all is_digit (text_of_nat n)"
proof (induction n rule: text_of_nat.induct)
  case (1 n)
  then show ?case
    by (subst text_of_nat.simps) (simp add: is_digit_digit_char)
qed

lemma length_text_of_nat: "n < 10 ^ k \<Longrightarrow> 0 < k \<Longrightarrow> length (text_of_nat n) \<le> k"
proof (induction n arbitrary: k rule: text_of_nat.induct)
  case (1 n)
  show ?case
  proof (cases "n < 10")
    case True
    with 1 show ?thesis by (subst text_of_nat.simps) simp
  next
    case False
    from 1(3) obtain k' where k: "k = Suc k'" by (cases k) auto
    from False 1(2) k have "0 < k'" by (cases k') auto
    moreover from 1(2) k have "n div 10 < 10 ^ k'" by (simp add: less_mult_imp_div_less mult.commute)
    ultimately have "length (text_of_nat (n div 10)) \<le> k'"
      using 1(1)[OF False] by simp
    with False k show ?thesis by (subst text_of_nat.simps) simp
  qed
qed

lemma parse_digits_zeros: "parse_digits (replicate k CHR ''0'' @ s) = parse_digits s"
proof -
  have "foldl (\<lambda>n c. 10 * n + digit_val c) 0 (replicate k CHR ''0'') = 0"
    by (induction k) (simp_all add: digit_val_def)
  then show ?thesis by (simp add: parse_digits_def)
qed

lemma lpad_in_range:
  assumes "n < 10 ^ w" "0 < w"
  shows "parse_digits (lpad (text_of_nat n) w CHR ''0'') = n"
    and "list_all is_digit (lpad (text_of_nat n) w CHR ''0'')"
proof -
  have le: "length (text_of_nat n) \<le> w" using assms by (rule length_text_of_nat)
  show "parse_digits (lpad (text_of_nat n) w CHR ''0'') = n"
    using le by (cases "length (text_of_nat n) = w")
      (simp_all add: lpad_def parse_digits_zeros parse_text_of_nat)
  show "list_all is_digit (lpad (text_of_nat n) w CHR ''0'')"
    using le digits_text_of_nat[of n]
    by (cases "length (text_of_nat n) = w") (simp_all add: lpad_def is_digit_def list_all_iff)
qed

lemma generate_po_number_in_range:
  assumes "\<forall>s \<in> set rows. matches_family ''PO-'' s \<longrightarrow> parse_digits (drop 3 s) < 999999"
  shows "generate_po_number rows
         = Inr (''PO-'' @ lpad (text_of_nat (Suc (spec_max_suffix ''PO-'' rows))) 6 CHR ''0'')"
    and "length (lpad (text_of_nat (Suc (spec_max_suffix ''PO-'' rows))) 6 CHR ''0'') = 6"
    and "list_all is_digit (lpad (text_of_nat (Suc (spec_max_suffix ''PO-'' rows))) 6 CHR ''0'')"
    and "parse_digits (lpad (text_of_nat (Suc (spec_max_suffix ''PO-'' rows))) 6 CHR ''0'')
         = Suc (spec_max_suffix ''PO-'' rows)"
proof -
  let ?sel = "filter (matches_family ''PO-'') rows"
  let ?m = "spec_max_suffix ''PO-'' rows"
  have m_def: "?m = foldr max (map parse_digits (map (drop 3) ?sel)) 0"
    by (simp add: spec_max_suffix_def comp_def numeral_3_eq_3)
  have bound: "foldr max (map parse_digits (map (drop 3) xs)) 0 < 999999"
    if "\<forall>s \<in> set xs. parse_digits (drop 3 s) < 999999" for xs
    using that by (induction xs) auto
  have m_lt: "?m < 999999"
    unfolding m_def using assms by (intro bound) auto
  have "map substring_po ?sel = map Some (map (drop 3) ?sel)"
    by (simp add: substring_po_match)
  moreover have "max_cast (map Some (map (drop 3) ?sel))
      = Inr (if map (drop 3) ?sel = [] then None else Some (int ?m))"
    unfolding m_def using assms
    by (intro max_cast_in_range) (auto simp: matches_family_def int4_max_def numeral_3_eq_3)
  ultimately have mc: "max_cast (map substring_po ?sel)
      = Inr (if ?sel = [] then None else Some (int ?m))"
    by (simp only: map_is_Nil_conv)
  have m0: "?m = 0" if "?sel = []"
    using that by (simp add: spec_max_suffix_def)
  have "select_next_number ''PO-'' substring_po rows = Inr (int ?m + 1)"
    using m_lt m0
    by (simp add: select_next_number_def mc coalesce_plus_one_def int4_max_def)
  then show "generate_po_number rows = Inr (''PO-'' @ lpad (text_of_nat (Suc ?m)) 6 CHR ''0'')"
    by (simp add: generate_po_number_def nat_add_distrib)
  show "length (lpad (text_of_nat (Suc ?m)) 6 CHR ''0'') = 6"
    by (rule length_lpad)
  from m_lt have "Suc ?m < 10 ^ 6" by simp
  then show "list_all is_digit (lpad (text_of_nat (Suc ?m)) 6 CHR ''0'')"
    and "parse_digits (lpad (text_of_nat (Suc ?m)) 6 CHR ''0'') = Suc ?m"
    by (simp_all add: lpad_in_range)
qed


lemma foldr_max_init:
  "foldr max xs (a::nat) = max (foldr max xs 0) a"
  by (induction xs) (simp_all add: max.assoc)

lemma max_suffix_append:
  "spec_max_suffix pfx (rows @ rows') = max (spec_max_suffix pfx rows) (spec_max_suffix pfx rows')"
  unfolding spec_max_suffix_def filter_append map_append foldr_append
  by (rule foldr_max_init)

lemma le_max_suffix:
  "s \<in> set rows \<Longrightarrow> matches_family pfx s \<Longrightarrow>
     parse_digits (drop (length pfx) s) \<le> spec_max_suffix pfx rows"
proof (induction rows)
  case Nil
  then show ?case by simp
next
  case (Cons r rows)
  then show ?case by (auto simp: spec_max_suffix_def)
qed

lemma le_max_suffix_po:
  "s \<in> set rows \<Longrightarrow> matches_family ''PO-'' s \<Longrightarrow>
     parse_digits (drop 3 s) \<le> spec_max_suffix ''PO-'' rows"
  using le_max_suffix[of s rows "''PO-''"] by (simp add: numeral_3_eq_3)

lemma generate_po_number_fresh:
  assumes "spec_max_suffix ''PO-'' rows < 999999"
  shows "\<exists>s. generate_po_number rows = Inr s \<and> s \<notin> set rows \<and> matches_family ''PO-'' s \<and>
             parse_digits (drop 3 s) = Suc (spec_max_suffix ''PO-'' rows) \<and> length s = 9 \<and>
             spec_max_suffix ''PO-'' (rows @ [s]) = Suc (spec_max_suffix ''PO-'' rows)"
proof -
  let ?m = "spec_max_suffix ''PO-'' rows"
  let ?d = "lpad (text_of_nat (Suc ?m)) 6 CHR ''0''"
  have rng: "\<forall>s \<in> set rows. matches_family ''PO-'' s \<longrightarrow> parse_digits (drop 3 s) < 999999"
    using le_max_suffix_po[of _ rows] assms by fastforce
  note g = generate_po_number_in_range[OF rng]
  have len: "length ?d = 6" by (rule g(2))
  then have ne: "?d \<noteq> []" by auto
  have m: "matches_family ''PO-'' (''PO-'' @ ?d)"
    using g(3) ne by (simp add: matches_family_def)
  have p: "parse_digits (drop 3 (''PO-'' @ ?d)) = Suc ?m"
    using g(4) by simp
  have fresh: "''PO-'' @ ?d \<notin> set rows"
  proof
    assume "''PO-'' @ ?d \<in> set rows"
    from le_max_suffix_po[OF this m] p show False by simp
  qed
  have "spec_max_suffix ''PO-'' (rows @ [''PO-'' @ ?d]) = Suc ?m"
    using m p by (simp add: max_suffix_append) (simp add: spec_max_suffix_def)
  with g(1) fresh m p len show ?thesis by simp
qed

lemma generate_and_persist_po_in_range:
  assumes "spec_max_suffix ''PO-'' rows + n \<le> 999999"
  shows "\<exists>ids. generate_and_persist generate_po_number n rows = Inr (ids, rows @ ids) \<and>
           length ids = n \<and>
           map (\<lambda>s. parse_digits (drop 3 s)) ids
             = map (\<lambda>k. spec_max_suffix ''PO-'' rows + k) [1..<Suc n] \<and>
           (\<forall>s \<in> set ids. matches_family ''PO-'' s)"
  using assms
proof (induction n arbitrary: rows)
  case 0
  then show ?case by simp
next
  case (Suc n)
  let ?m = "spec_max_suffix ''PO-'' rows"
  from Suc.prems have "?m < 999999" by simp
  from generate_po_number_fresh[OF this] obtain s where
    s: "generate_po_number rows = Inr s" "s \<notin> set rows" "matches_family ''PO-'' s"
       "parse_digits (drop 3 s) = Suc ?m" "spec_max_suffix ''PO-'' (rows @ [s]) = Suc ?m"
    by blast
  from Suc.prems s(5) have "spec_max_suffix ''PO-'' (rows @ [s]) + n \<le> 999999" by simp
  from Suc.IH[OF this] obtain ids where
    ids: "generate_and_persist generate_po_number n (rows @ [s]) = Inr (ids, (rows @ [s]) @ ids)"
         "length ids = n"
         "map (\<lambda>s. parse_digits (drop 3 s)) ids
            = map (\<lambda>k. spec_max_suffix ''PO-'' (rows @ [s]) + k) [1..<Suc n]"
         "\<forall>s \<in> set ids. matches_family ''PO-'' s"
    by blast
  have "[1..<Suc (Suc n)] = 1 # map Suc [1..<Suc n]"
    by (simp add: upt_conv_Cons map_Suc_upt del: upt_Suc)
  then have "map (\<lambda>k. ?m + k) [1..<Suc (Suc n)]
      = Suc ?m # map (\<lambda>k. Suc ?m + k) [1..<Suc n]"
    by (simp add: comp_def del: upt_Suc)
  with s ids have "generate_and_persist generate_po_number (Suc n) rows = Inr (s # ids, rows @ s # ids) \<and>
           length (s # ids) = Suc n \<and>
           map (\<lambda>s. parse_digits (drop 3 s)) (s # ids)
             = map (\<lambda>k. ?m + k) [1..<Suc (Suc n)] \<and>
           (\<forall>s \<in> set (s # ids). matches_family ''PO-'' s)"
    by (simp add: persist_number_def del: upt_Suc)
  then show ?case by blast
qed

lemma generate_and_persist_po_increasing:
  assumes "spec_max_suffix ''PO-'' rows + n \<le> 999999"
  shows "\<exists>ids rows'. generate_and_persist generate_po_number n rows = Inr (ids, rows') \<and>
           length ids = n \<and> distinct ids \<and>
           sorted_wrt (<) (map (\<lambda>s. parse_digits (drop 3 s)) ids) \<and>
           (\<forall>s \<in> set ids. matches_family ''PO-'' s \<and>
                 spec_max_suffix ''PO-'' rows < parse_digits (drop 3 s))"
proof -
  from generate_and_persist_po_in_range[OF assms] obtain ids where
    ids: "generate_and_persist generate_po_number n rows = Inr (ids, rows @ ids)"
         "length ids = n"
         "map (\<lambda>s. parse_digits (drop 3 s)) ids
             = map (\<lambda>k. spec_max_suffix ''PO-'' rows + k) [1..<Suc n]"
         "\<forall>s \<in> set ids. matches_family ''PO-'' s"
    by blast
  have srt: "sorted_wrt (<) (map (\<lambda>s. parse_digits (drop 3 s)) ids)"
    unfolding ids(3) by (simp add: sorted_wrt_map del: upt_Suc)
  then have "distinct (map (\<lambda>s. parse_digits (drop 3 s)) ids)"
    by (simp add: strict_sorted_iff)
  then have "distinct ids" by (simp add: distinct_map)
  moreover have "spec_max_suffix ''PO-'' rows < parse_digits (drop 3 s)" if "s \<in> set ids" for s
  proof -
    from that have "parse_digits (drop 3 s) \<in> set (map (\<lambda>s. parse_digits (drop 3 s)) ids)"
      by simp
    then show ?thesis unfolding ids(3) by (auto simp del: upt_Suc)
  qed
  ultimately show ?thesis using ids srt by blast
qed

subsection \<open>Where the generators fail\<close>

text \<open>
  Claim C1.  The generator of a family with prefix P and width W is to return P followed by
  m+1 zero-padded to W digits, m being the largest numeric suffix among the stored
  identifiers of the form P-digits (others ignored), and P-0..01 when there is none.

  The code departs from this in two ways.  With \<open>PO-999999\<close> stored, \<open>generate_po_number\<close>
  returns \<open>PO-100000\<close>: \<open>LPAD\<close> cuts the seven digits of 1000000 down to six.  The same cut
  happens at width 3 (\<open>1000\<close> becomes \<open>100\<close>).  And the invoice, order and payment
  generators raise "column reference is ambiguous" on every call, whatever is stored,
  because each declares a variable named like the column its query reads; the last
  migration repaired exactly this in \<open>generate_po_number\<close> only.  (A stored suffix
  above 2147483647 makes the cast to \<open>INTEGER\<close> raise as well.)  Within six digits the
  purchase-order generator does what the claim says (\<open>generate_po_number_in_range\<close>).
\<close>

theorem generate_number_failing_inputs:
  "generate_po_number [''PO-999999''] = Inr ''PO-100000''
   \<and> lpad (text_of_nat 1000) 3 CHR ''0'' = ''100''
   \<and> generate_invoice_number [] = Inl (Ambiguous_column ''invoice_number'')
   \<and> generate_order_number [] = Inl (Ambiguous_column ''order_number'')
   \<and> generate_payment_number [] = Inl (Ambiguous_column ''payment_number'')
   \<and> generate_po_number [''PO-2147483648''] = Inl Integer_out_of_range
   \<and> generate_po_number [] = Inr ''PO-000001''"
  by (simp add: generator_defs)

text \<open>
  Claim C2.  Generating N identifiers one after the other, each persisted before the next
  is generated, is to give N distinct identifiers with strictly increasing suffixes, with
  non-conforming stored strings ignored (\<open>INV-001\<close>, \<open>INV-003\<close>, \<open>INV-BAD\<close> give \<open>INV-004\<close>).

  With \<open>PO-999999\<close> stored, the first purchase-order number generated is \<open>PO-100000\<close>
  and, once it is persisted, the second is \<open>PO-100000\<close> again, which the unique column
  refuses; the suffix went down, not up.  On the claim's own example the invoice generator
  raises instead of answering \<open>INV-004\<close>.  The purchase-order generator, on the same
  example in its own family, does ignore the non-conforming string, and as long as the
  numbers stay within six digits its identifiers are distinct and increasing
  (\<open>generate_and_persist_po_increasing\<close>).
\<close>

theorem sequential_generation_failing_inputs:
  "generate_and_persist generate_po_number (Suc 0) [''PO-999999'']
     = Inr ([''PO-100000''], [''PO-999999'', ''PO-100000''])
   \<and> generate_po_number [''PO-999999'', ''PO-100000''] = Inr ''PO-100000''
   \<and> generate_and_persist generate_po_number (Suc (Suc 0)) [''PO-999999'']
     = Inl Unique_violation
   \<and> generate_and_persist generate_invoice_number (Suc 0) [''INV-001'', ''INV-003'', ''INV-BAD'']
     = Inl (Ambiguous_column ''invoice_number'')
   \<and> generate_po_number [''PO-000001'', ''PO-000003'', ''PO-BAD''] = Inr ''PO-000004''"
  by (simp add: generator_defs)


section \<open>Properties of the stock ledger\<close>

lemmas ledger_defs = createStockMovement_def createStockAdjustment_def
  insert_stock_movement_def update_product_stock_def in_int4_def Let_def

text \<open>
  Claim C4, as stated, asks that every movement recorded through the ledger satisfies
  \<open>stock_after - stock_before = quantity_change\<close>.  \<open>createStockMovement\<close> stores the three
  numbers as the caller gives them: a movement with change 5, before 50 and after 99 is
  recorded, and the product's stock becomes 99.
\<close>

theorem stock_movement_unchecked_counterexample:
  "fst (createStockMovement no_faults None inconsistent_movement ledger0)
     = Inr (0, inconsistent_movement)
   \<and> stock_movements (snd (createStockMovement no_faults None inconsistent_movement ledger0))
     = [(0, inconsistent_movement)]
   \<and> stock_after inconsistent_movement - stock_before inconsistent_movement
     \<noteq> quantity_change inconsistent_movement"
  by (simp add: ledger_defs no_faults_def ledger0_def inconsistent_movement_def)

text \<open>
  Claim C4, amended.  When \<open>createStockMovement\<close> succeeds, exactly one movement is appended,
  holding the caller's fields as given (with the creator set), and the referenced product's
  stock equals the movement's \<open>stock_after\<close>.  When the adjustment helper, called with
  current stock c and new stock n, succeeds, the appended movement has type adjustment,
  \<open>quantity_change = n - c\<close>, \<open>stock_before = c\<close>, \<open>stock_after = n\<close> (so that
  \<open>stock_after - stock_before = quantity_change\<close>), and the product's stock is n.
\<close>

theorem stock_ledger_on_success:
  "(createStockMovement env user md db = (Inr newMovement, db') \<longrightarrow>
      newMovement = (next_id db, md\<lparr>created_by := user\<rparr>) \<and>
      stock_movements db' = stock_movements db @ [newMovement] \<and>
      (\<exists>p. products db' (product_id md) = Some p \<and> stock p = stock_after md))
   \<and> (createStockAdjustment env user pid pname psku c n rsn now db = (Inr (), db'') \<longrightarrow>
      (\<exists>m. stock_movements db'' = stock_movements db @ [(next_id db, m)] \<and>
           product_id m = pid \<and> movement_type m = Adjustment \<and>
           quantity_change m = n - c \<and> stock_before m = c \<and> stock_after m = n \<and>
           stock_after m - stock_before m = quantity_change m) \<and>
      (\<exists>p. products db'' pid = Some p \<and> stock p = n))"
  by (auto simp: ledger_defs split: if_splits sum.splits option.splits prod.splits)

lemma adjustment_50_to_35:
  "createStockAdjustment no_faults (Some ''u1'') ''p1'' ''Widget'' (Some ''W-1'') 50 35
      ''recount'' ''2025-08-01T00:00:00.000Z'' ledger0
   = (Inr (),
      \<lparr>products = [''p1'' \<mapsto> \<lparr>p_name = ''Widget'', p_sku = ''W-1'', stock = 35\<rparr>],
       stock_movements =
         [(0, \<lparr>product_id = ''p1'', product_name = ''Widget'', product_sku = Some ''W-1'',
               movement_type = Adjustment, quantity_change = - 15, stock_before = 50,
               stock_after = 35, reason = Some ''recount'', reference_id = None,
               reference_type = None, movement_date = ''2025-08-01T00:00:00.000Z'',
               created_by = Some ''u1''\<rparr>)],
       next_id = Suc 0\<rparr>)"
  by (simp add: ledger_defs no_faults_def ledger0_def)

lemma purchase_recorded:
  "createStockMovement no_faults None purchase_movement ledger0
   = (Inr (0, purchase_movement),
      \<lparr>products = [''p1'' \<mapsto> \<lparr>p_name = ''Widget'', p_sku = ''W-1'', stock = 55\<rparr>],
       stock_movements = [(0, purchase_movement)], next_id = Suc 0\<rparr>)"
  by (simp add: ledger_defs no_faults_def ledger0_def purchase_movement_def)

theorem stock_ledger_on_success_witness:
  "(\<exists>p. [''p1'' \<mapsto> \<lparr>p_name = ''Widget'', p_sku = ''W-1'', stock = 55\<rparr>] ''p1'' = Some p \<and>
        stock p = stock_after purchase_movement)
   \<and> (\<exists>m. [(0, \<lparr>product_id = ''p1'', product_name = ''Widget'', product_sku = Some ''W-1'',
               movement_type = Adjustment, quantity_change = - 15, stock_before = 50,
               stock_after = 35, reason = Some ''recount'', reference_id = None,
               reference_type = None, movement_date = ''2025-08-01T00:00:00.000Z'',
               created_by = Some ''u1''\<rparr>)] = stock_movements ledger0 @ [(next_id ledger0, m)] \<and>
        quantity_change m = 35 - 50 \<and> stock_before m = 50 \<and> stock_after m = 35 \<and>
        stock_after m - stock_before m = quantity_change m)
   \<and> (\<exists>p. [''p1'' \<mapsto> \<lparr>p_name = ''Widget'', p_sku = ''W-1'', stock = 35\<rparr>] ''p1'' = Some p \<and>
        stock p = 35)"
  using stock_ledger_on_success [where env = no_faults and user = None
      and md = purchase_movement and db = ledger0,
      THEN conjunct1, rule_format, OF purchase_recorded]
    stock_ledger_on_success [where env = no_faults and user = "Some ''u1''"
      and pid = "''p1''" and pname = "''Widget''" and psku = "Some ''W-1''" and c = 50 and n = 35
      and rsn = "''recount''" and now = "''2025-08-01T00:00:00.000Z''" and db = ledger0,
      THEN conjunct2, rule_format, OF adjustment_50_to_35]
  by (simp add: purchase_movement_def)

text \<open>
  Claim C6, as stated, asks that no failure leaves the movement persisted while the
  product's stock was not updated.  When the insert succeeds and the update of \<open>products\<close>
  fails, \<open>createStockMovement\<close> rejects, the movement is in the table and the stock is
  still 50.
\<close>

theorem stock_ledger_partial_failure_counterexample:
  "fst (createStockMovement (\<lambda>c. c = Update Products) None purchase_movement ledger0)
     = Inl (Storage_error (Update Products))
   \<and> stock_movements
        (snd (createStockMovement (\<lambda>c. c = Update Products) None purchase_movement ledger0))
     = [(0, purchase_movement)]
   \<and> products
        (snd (createStockMovement (\<lambda>c. c = Update Products) None purchase_movement ledger0))
        ''p1''
     = Some \<lparr>p_name = ''Widget'', p_sku = ''W-1'', stock = 50\<rparr>"
  by (simp add: ledger_defs ledger0_def purchase_movement_def)

text \<open>
  Claim C6, amended.  The operation is not atomic.  If the insert of the movement fails (the
  call itself, the foreign key or the integer range), \<open>createStockMovement\<close> reports the
  failure and writes nothing.  If the insert succeeds and the update of the product fails,
  it reports that failure, the movement stays persisted (nothing is rolled back) and the
  products are unchanged.  If both succeed, the movement is persisted and the product's
  stock is the movement's \<open>stock_after\<close>.  No other outcome exists: on every failure the
  products are unchanged, and the movement table is either unchanged or longer by the new
  movement.
\<close>

theorem stock_ledger_failure_modes:
  "(env (Insert Stock_movements) \<or> product_id md \<notin> dom (products db) \<or>
      \<not> (in_int4 (quantity_change md) \<and> in_int4 (stock_before md) \<and> in_int4 (stock_after md))
      \<longrightarrow> (\<exists>e. createStockMovement env user md db = (Inl e, db)))
   \<and> (env (Insert Stock_movements) \<longrightarrow>
      createStockMovement env user md db = (Inl (Storage_error (Insert Stock_movements)), db))
   \<and> (\<not> env (Insert Stock_movements) \<and> product_id md \<in> dom (products db) \<and>
      in_int4 (quantity_change md) \<and> in_int4 (stock_before md) \<and> in_int4 (stock_after md) \<and>
      env (Update Products) \<longrightarrow>
      createStockMovement env user md db
        = (Inl (Storage_error (Update Products)),
           db\<lparr>stock_movements := stock_movements db @ [(next_id db, md\<lparr>created_by := user\<rparr>)],
              next_id := Suc (next_id db)\<rparr>))
   \<and> (\<not> env (Insert Stock_movements) \<and> products db (product_id md) = Some p \<and>
      in_int4 (quantity_change md) \<and> in_int4 (stock_before md) \<and> in_int4 (stock_after md) \<and>
      \<not> env (Update Products) \<longrightarrow>
      createStockMovement env user md db
        = (Inr (next_id db, md\<lparr>created_by := user\<rparr>),
           db\<lparr>stock_movements := stock_movements db @ [(next_id db, md\<lparr>created_by := user\<rparr>)],
              next_id := Suc (next_id db),
              products := (products db)(product_id md \<mapsto> p\<lparr>stock := stock_after md\<rparr>)\<rparr>))
   \<and> (createStockMovement env user md db = (Inl e, db') \<longrightarrow>
        products db' = products db \<and>
        (db' = db \<or>
         e = Storage_error (Update Products) \<and>
         stock_movements db' = stock_movements db @ [(next_id db, md\<lparr>created_by := user\<rparr>)]))
   \<and> (createStockMovement env user md db = (Inr r, db'') \<longrightarrow>
        stock_movements db'' = stock_movements db @ [(next_id db, md\<lparr>created_by := user\<rparr>)] \<and>
        (\<exists>p. products db'' (product_id md) = Some p \<and> stock p = stock_after md))"
proof (intro conjI impI)
  assume "env (Insert Stock_movements) \<or> product_id md \<notin> dom (products db) \<or>
      \<not> (in_int4 (quantity_change md) \<and> in_int4 (stock_before md) \<and> in_int4 (stock_after md))"
  then show "\<exists>e. createStockMovement env user md db = (Inl e, db)"
    by (auto simp: createStockMovement_def insert_stock_movement_def Let_def)
next
  assume "env (Insert Stock_movements)"
  then show "createStockMovement env user md db
      = (Inl (Storage_error (Insert Stock_movements)), db)"
    by (simp add: createStockMovement_def insert_stock_movement_def Let_def)
next
  assume "\<not> env (Insert Stock_movements) \<and> product_id md \<in> dom (products db) \<and>
      in_int4 (quantity_change md) \<and> in_int4 (stock_before md) \<and> in_int4 (stock_after md) \<and>
      env (Update Products)"
  then show "createStockMovement env user md db
        = (Inl (Storage_error (Update Products)),
           db\<lparr>stock_movements := stock_movements db @ [(next_id db, md\<lparr>created_by := user\<rparr>)],
              next_id := Suc (next_id db)\<rparr>)"
    by (simp add: createStockMovement_def insert_stock_movement_def update_product_stock_def Let_def)
next
  assume "\<not> env (Insert Stock_movements) \<and> products db (product_id md) = Some p \<and>
      in_int4 (quantity_change md) \<and> in_int4 (stock_before md) \<and> in_int4 (stock_after md) \<and>
      \<not> env (Update Products)"
  then show "createStockMovement env user md db
        = (Inr (next_id db, md\<lparr>created_by := user\<rparr>),
           db\<lparr>stock_movements := stock_movements db @ [(next_id db, md\<lparr>created_by := user\<rparr>)],
              next_id := Suc (next_id db),
              products := (products db)(product_id md \<mapsto> p\<lparr>stock := stock_after md\<rparr>)\<rparr>)"
    by (simp add: createStockMovement_def insert_stock_movement_def update_product_stock_def
        Let_def domIff)
next
  assume a: "createStockMovement env user md db = (Inl e, db')"
  then show "products db' = products db"
    by (auto simp: ledger_defs split: if_splits sum.splits option.splits prod.splits)
  from a show "db' = db \<or>
         e = Storage_error (Update Products) \<and>
         stock_movements db' = stock_movements db @ [(next_id db, md\<lparr>created_by := user\<rparr>)]"
    by (auto simp: ledger_defs split: if_splits sum.splits option.splits prod.splits)
next
  assume a: "createStockMovement env user md db = (Inr r, db'')"
  then show "stock_movements db'' = stock_movements db @ [(next_id db, md\<lparr>created_by := user\<rparr>)]"
    by (auto simp: ledger_defs split: if_splits sum.splits option.splits prod.splits)
  from a show "\<exists>p. products db'' (product_id md) = Some p \<and> stock p = stock_after md"
    by (auto simp: ledger_defs split: if_splits sum.splits option.splits prod.splits)
qed


theorem stock_ledger_failure_modes_witness:
  "createStockMovement (\<lambda>c. c = Insert Stock_movements) None purchase_movement ledger0
     = (Inl (Storage_error (Insert Stock_movements)), ledger0)
   \<and> createStockMovement (\<lambda>c. c = Update Products) None purchase_movement ledger0
     = (Inl (Storage_error (Update Products)),
        \<lparr>products = [''p1'' \<mapsto> \<lparr>p_name = ''Widget'', p_sku = ''W-1'', stock = 50\<rparr>],
         stock_movements = [(0, purchase_movement)], next_id = Suc 0\<rparr>)
   \<and> createStockMovement no_faults None purchase_movement ledger0
     = (Inr (0, purchase_movement),
        \<lparr>products = [''p1'' \<mapsto> \<lparr>p_name = ''Widget'', p_sku = ''W-1'', stock = 55\<rparr>],
         stock_movements = [(0, purchase_movement)], next_id = Suc 0\<rparr>)"
  using stock_ledger_failure_modes [where env = "\<lambda>c. c = Insert Stock_movements"
      and user = None and md = purchase_movement and db = ledger0,
      THEN conjunct2, THEN conjunct1]
    stock_ledger_failure_modes [where env = "\<lambda>c. c = Update Products" and user = None
      and md = purchase_movement and db = ledger0,
      THEN conjunct2, THEN conjunct2, THEN conjunct1]
    stock_ledger_failure_modes [where env = no_faults and user = None
      and md = purchase_movement and db = ledger0
      and p = "\<lparr>p_name = ''Widget'', p_sku = ''W-1'', stock = 50\<rparr>",
      THEN conjunct2, THEN conjunct2, THEN conjunct2, THEN conjunct1]
  by (simp add: purchase_movement_def ledger0_def no_faults_def in_int4_def)

text \<open>
  Claim C8.  Updating a stock movement (whatever fields the update carries) and deleting a
  stock movement leave the \<open>products\<close> table, and so every product's stock, as it was,
  whether the call succeeds or fails.
\<close>

theorem movement_update_delete_frame:
  "products (snd (updateStockMovement env i updates db)) = products db
   \<and> products (snd (deleteStockMovement env i db)) = products db"
  by (simp add: updateStockMovement_def deleteStockMovement_def)

theorem movement_update_delete_frame_witness:
  "products (snd (updateStockMovement no_faults 0 (\<lambda>r. r\<lparr>stock_after := 7\<rparr>) ledger0))
     = products ledger0
   \<and> products (snd (deleteStockMovement no_faults 0 ledger0)) = products ledger0"
  using movement_update_delete_frame [of no_faults 0 "\<lambda>r. r\<lparr>stock_after := 7\<rparr>" ledger0]
  by simp


section \<open>Properties of the document hooks\<close>

lemmas doc_defs = updatePurchaseOrder_def updateSalesOrder_def updateInvoice_def
  update_header_def delete_items_def insert_items_def items_of_def

text \<open>What \<open>updateInvoice\<close> does when it succeeds on a payload with items: the document's
  lines are exactly the supplied ones, other documents' lines are untouched.\<close>

lemma updateInvoice_replaces:
  assumes "updateInvoice env i patch (Some its) db = (Inr u, db')"
  shows "items_of i db' = its"
    and "filter (\<lambda>(d, it). d \<noteq> i) (items db') = filter (\<lambda>(d, it). d \<noteq> i) (items db)"
    and "headers db' = (headers db)(i \<mapsto> u)"
  using assms
  by (auto simp: doc_defs Let_def filter_map comp_def filter_empty_conv
        split: if_splits option.splits sum.splits)

text \<open>
  Claim C7.  After a successful update with an item list of length k, exactly the k supplied
  lines are to be persisted for the document and none of the prior ones.

  \<open>updateInvoice\<close> checks the error of its delete and does so (lemma
  \<open>updateInvoice_replaces\<close>; on the failing delete below it rejects).
  \<open>updatePurchaseOrder\<close> and \<open>updateSalesOrder\<close> do not look at the result of their delete:
  on a document with five lines, an update supplying two lines whose delete fails reports
  success and leaves seven lines, the five prior ones among them.
\<close>

theorem update_order_keeps_prior_items:
  "updatePurchaseOrder (\<lambda>c. c = Delete Purchase_order_items) ''d1'' (\<lambda>h. h) (Some [6, 7]) docs5
     = (Inr (), docs5\<lparr>items := [(''d1'', 1), (''d1'', 2), (''d1'', 3), (''d1'', 4),
                                  (''d1'', 5), (''d1'', 6), (''d1'', 7)]\<rparr>)
   \<and> items_of ''d1''
        (snd (updatePurchaseOrder (\<lambda>c. c = Delete Purchase_order_items) ''d1'' (\<lambda>h. h)
                (Some [6, 7]) docs5))
     = [1, 2, 3, 4, 5, 6, 7]
   \<and> updateSalesOrder (\<lambda>c. c = Delete Sales_order_items) ''d1'' (\<lambda>h. h) (Some [6, 7]) docs5
     = (Inr (), docs5\<lparr>items := [(''d1'', 1), (''d1'', 2), (''d1'', 3), (''d1'', 4),
                                  (''d1'', 5), (''d1'', 6), (''d1'', 7)]\<rparr>)
   \<and> fst (updateInvoice (\<lambda>c. c = Delete Invoice_items) ''d1'' (\<lambda>h. h) (Some [6, 7]) docs5)
     = Inl (Storage_error (Delete Invoice_items))
   \<and> items_of ''d1'' (snd (updateInvoice no_faults ''d1'' (\<lambda>h. h) (Some [6, 7]) docs5))
     = [6, 7]"
  by (simp add: doc_defs docs5_def no_faults_def Let_def)

text \<open>
  Claim C9.  \<open>fetchInvoiceById\<close> never rejects.  If the header fetch fails, or no invoice has
  the id, or the items fetch fails, it resolves to no invoice and the empty item list;
  otherwise it resolves to the stored header of that id and to the contents of exactly those
  rows of the item table whose invoice id is the given one, in table order.
\<close>

theorem fetchInvoiceById_never_rejects:
  "(\<exists>r. fetchInvoiceById env db i = Inr r)
   \<and> (env (Select Invoices) \<or> env (Select Invoice_items) \<or> headers db i = None \<longrightarrow>
        fetchInvoiceById env db i = Inr (None, []))
   \<and> (\<not> env (Select Invoices) \<and> \<not> env (Select Invoice_items) \<and> headers db i = Some h \<longrightarrow>
        fetchInvoiceById env db i
          = Inr (Some h, map snd (filter (\<lambda>row. fst row = i) (items db))))"
  by (auto simp: fetchInvoiceById_def fetchInvoiceById_try_def items_of_def case_prod_unfold
      split: option.splits)

theorem fetchInvoiceById_never_rejects_witness:
  "fetchInvoiceById (\<lambda>c. c = Select Invoice_items) docs_two ''d1'' = Inr (None, [])
   \<and> fetchInvoiceById (\<lambda>c. c = Select Invoices) docs_two ''d1'' = Inr (None, [])
   \<and> fetchInvoiceById no_faults docs_two ''d3'' = Inr (None, [])
   \<and> fetchInvoiceById no_faults docs_two ''d1'' = Inr (Some ''header one'', [1, 3])
   \<and> fetchInvoiceById no_faults docs_two ''d2'' = Inr (Some ''header two'', [2])"
  using fetchInvoiceById_never_rejects [of "\<lambda>c. c = Select Invoice_items" docs_two "''d1''"]
    fetchInvoiceById_never_rejects [of "\<lambda>c. c = Select Invoices" docs_two "''d1''"]
    fetchInvoiceById_never_rejects [of no_faults docs_two "''d3''"]
    fetchInvoiceById_never_rejects [of no_faults docs_two "''d1''" "''header one''"]
    fetchInvoiceById_never_rejects [of no_faults docs_two "''d2''" "''header two''"]
  by (simp add: docs_two_def no_faults_def)

text \<open>
  Claim C10.  In \<open>updateSalesOrder\<close> and \<open>updatePurchaseOrder\<close>, when the header update
  succeeds, the delete of the existing items fails and the insert of the new items
  succeeds, the hook resolves as a success and the line-item table is the old one followed
  by the new lines: the document's prior lines are all still there, next to the new ones.
\<close>

theorem update_order_ignores_delete_failure:
  "(\<not> env (Update Sales_orders) \<and> env (Delete Sales_order_items) \<and>
      \<not> env (Insert Sales_order_items) \<and> i \<in> dom (headers db) \<longrightarrow>
      fst (updateSalesOrder env i upd (Some its) db) = Inr () \<and>
      items (snd (updateSalesOrder env i upd (Some its) db))
        = items db @ map (\<lambda>it. (i, it)) its \<and>
      items_of i (snd (updateSalesOrder env i upd (Some its) db)) = items_of i db @ its)
   \<and> (\<not> env (Update Purchase_orders) \<and> env (Delete Purchase_order_items) \<and>
      \<not> env (Insert Purchase_order_items) \<and> i \<in> dom (headers db) \<longrightarrow>
      fst (updatePurchaseOrder env i upd (Some its) db) = Inr () \<and>
      items (snd (updatePurchaseOrder env i upd (Some its) db))
        = items db @ map (\<lambda>it. (i, it)) its \<and>
      items_of i (snd (updatePurchaseOrder env i upd (Some its) db)) = items_of i db @ its)"
  by (auto simp: doc_defs Let_def filter_map comp_def split: option.splits)

theorem update_order_ignores_delete_failure_witness:
  "fst (updatePurchaseOrder (\<lambda>c. c = Delete Purchase_order_items) ''d1'' (\<lambda>h. h)
          (Some [6, 7]) docs5) = Inr ()
   \<and> items_of ''d1'' (snd (updatePurchaseOrder (\<lambda>c. c = Delete Purchase_order_items) ''d1''
          (\<lambda>h. h) (Some [6, 7]) docs5)) = [1, 2, 3, 4, 5, 6, 7]
   \<and> fst (updateSalesOrder (\<lambda>c. c = Delete Sales_order_items) ''d1'' (\<lambda>h. h)
          (Some [6, 7]) docs5) = Inr ()
   \<and> items_of ''d1'' (snd (updateSalesOrder (\<lambda>c. c = Delete Sales_order_items) ''d1''
          (\<lambda>h. h) (Some [6, 7]) docs5)) = [1, 2, 3, 4, 5, 6, 7]"
  using update_order_ignores_delete_failure
          [of "\<lambda>c. c = Delete Purchase_order_items" "''d1''" docs5 "\<lambda>h. h" "[6, 7]"]
        update_order_ignores_delete_failure
          [of "\<lambda>c. c = Delete Sales_order_items" "''d1''" docs5 "\<lambda>h. h" "[6, 7]"]
  by (simp add: docs5_def items_of_def)


section \<open>Properties of the customer rollup\<close>

lemmas rollup_defs = customer_consistent_def count_paid_def sum_paid_def max_issue_date_def
  update_customer_totals_def recompute_customer_def

lemma trigger_recomputes:
  "update_customer_totals INSERT (Some n) old db = recompute_customer (inv_customer_id n) db"
  "update_customer_totals UPDATE (Some n) old db = recompute_customer (inv_customer_id n) db"
  "update_customer_totals DELETE new (Some ol) db = recompute_customer (inv_customer_id ol) db"
  by (simp_all add: update_customer_totals_def split: sum.splits)

lemma recompute_customer_consistent:
  assumes "recompute_customer c db = Inr db'"
  shows "invoices db' = invoices db"
    and "customer_consistent db' c"
    and "k \<noteq> c \<Longrightarrow> customers db' k = customers db k"
  using assms
  by (auto simp: rollup_defs split: option.splits if_splits)

lemma filter_paid_split:
  "filter (\<lambda>(i, r). inv_customer_id r = k \<and> inv_status r = Paid) xs
     = filter (\<lambda>(i, r). inv_status r = Paid) (filter (\<lambda>(i, r). inv_customer_id r = k) xs)"
  by (induction xs) auto

text \<open>The cached columns of a customer depend on that customer's row and invoices only.\<close>

lemma customer_consistent_cong:
  assumes "customers db' k = customers db k"
    and "filter (\<lambda>(i, r). inv_customer_id r = k) (invoices db')
         = filter (\<lambda>(i, r). inv_customer_id r = k) (invoices db)"
  shows "customer_consistent db' k = customer_consistent db k"
proof -
  have "count_paid k db' = count_paid k db"
    unfolding count_paid_def filter_paid_split assms(2) ..
  moreover have "sum_paid k db' = sum_paid k db"
    unfolding sum_paid_def filter_paid_split assms(2) ..
  moreover have "max_issue_date k db' = max_issue_date k db"
    unfolding max_issue_date_def assms(2) ..
  ultimately show ?thesis
    by (simp add: customer_consistent_def assms(1) split: option.splits)
qed

text \<open>Creating an invoice keeps every customer's cached columns right.\<close>

lemma insert_invoice_preserves:
  assumes "insert_invoice i row db = Inr db'" and "customer_consistent db k"
  shows "customer_consistent db' k"
proof -
  from assms(1) have r: "recompute_customer (inv_customer_id row)
      (db\<lparr>invoices := invoices db @ [(i, row)]\<rparr>) = Inr db'"
    by (simp add: insert_invoice_def trigger_recomputes split: if_splits)
  show ?thesis
  proof (cases "k = inv_customer_id row")
    case True
    with recompute_customer_consistent(2)[OF r] show ?thesis by simp
  next
    case False
    have "customer_consistent db' k
        = customer_consistent (db\<lparr>invoices := invoices db @ [(i, row)]\<rparr>) k"
      using recompute_customer_consistent(1)[OF r] recompute_customer_consistent(3)[OF r False]
      by (intro customer_consistent_cong) auto
    also have "\<dots> = customer_consistent db k"
      using False by (intro customer_consistent_cong) auto
    finally show ?thesis using assms(2) by simp
  qed
qed

text \<open>So does deleting one (the ids are a primary key).\<close>

lemma delete_invoice_preserves:
  assumes "delete_invoice i db = Inr db'" and "customer_consistent db k"
    and "distinct (map fst (invoices db))"
  shows "customer_consistent db' k"
proof (cases "map_of (invoices db) i")
  case None
  with assms show ?thesis by (simp add: delete_invoice_def)
next
  case (Some old)
  with assms(1) have r: "recompute_customer (inv_customer_id old)
       (db\<lparr>invoices := filter (\<lambda>(j, r). j \<noteq> i) (invoices db)\<rparr>) = Inr db'"
    by (simp add: delete_invoice_def trigger_recomputes)
  show ?thesis
  proof (cases "k = inv_customer_id old")
    case True
    with recompute_customer_consistent(2)[OF r] show ?thesis by simp
  next
    case False
    have "customer_consistent db' k
        = customer_consistent (db\<lparr>invoices := filter (\<lambda>(j, r). j \<noteq> i) (invoices db)\<rparr>) k"
      using recompute_customer_consistent(1)[OF r] recompute_customer_consistent(3)[OF r False]
      by (intro customer_consistent_cong) auto
    also have "\<dots> = customer_consistent db k"
    proof (intro customer_consistent_cong)
      have other: "inv_customer_id r \<noteq> k \<or> j \<noteq> i" if "(j, r) \<in> set (invoices db)" for j r
        using that Some False assms(3)
        by (auto simp: map_of_eq_Some_iff dest: eq_key_imp_eq_value)
      show "customers (db\<lparr>invoices := filter (\<lambda>(j, r). j \<noteq> i) (invoices db)\<rparr>) k
          = customers db k"
        by simp
      show "filter (\<lambda>(i, r). inv_customer_id r = k)
              (invoices (db\<lparr>invoices := filter (\<lambda>(j, r). j \<noteq> i) (invoices db)\<rparr>))
         = filter (\<lambda>(i, r). inv_customer_id r = k) (invoices db)"
        using other by (auto intro: filter_cong)
    qed
    finally show ?thesis using assms(2) by simp
  qed
qed

text \<open>So does an update that leaves the invoice with its customer.\<close>

lemma update_invoice_same_customer_preserves:
  assumes "update_invoice i upd db = Inr db'" and "customer_consistent db k"
    and "distinct (map fst (invoices db))"
    and "\<forall>old. map_of (invoices db) i = Some old \<longrightarrow>
           inv_customer_id (upd old) = inv_customer_id old"
  shows "customer_consistent db' k"
proof (cases "map_of (invoices db) i")
  case None
  with assms show ?thesis by (simp add: update_invoice_def)
next
  case (Some old)
  let ?db1 = "db\<lparr>invoices := map (\<lambda>(j, r). if j = i then (j, upd r) else (j, r)) (invoices db)\<rparr>"
  from Some assms(4) have same: "inv_customer_id (upd old) = inv_customer_id old" by simp
  from Some assms(1) have r: "recompute_customer (inv_customer_id old) ?db1 = Inr db'"
    by (simp add: update_invoice_def trigger_recomputes same split: if_splits)
  show ?thesis
  proof (cases "k = inv_customer_id old")
    case True
    with recompute_customer_consistent(2)[OF r] show ?thesis by simp
  next
    case False
    have "customer_consistent db' k = customer_consistent ?db1 k"
      using recompute_customer_consistent(1)[OF r] recompute_customer_consistent(3)[OF r False]
      by (intro customer_consistent_cong) auto
    also have "\<dots> = customer_consistent db k"
    proof (intro customer_consistent_cong)
      have only: "r = old" if "(i, r) \<in> set (invoices db)" for r
        using that Some assms(3) by (auto simp: map_of_eq_Some_iff dest: eq_key_imp_eq_value)
      show "customers ?db1 k = customers db k" by simp
      have "filter (\<lambda>(i, r). inv_customer_id r = k)
              (map (\<lambda>(j, r). if j = i then (j, upd r) else (j, r)) xs)
            = filter (\<lambda>(i, r). inv_customer_id r = k) xs"
        if "set xs \<subseteq> set (invoices db)" for xs
        using that
      proof (induction xs)
        case Nil
        then show ?case by simp
      next
        case (Cons x xs)
        obtain j r where x: "x = (j, r)" by (cases x)
        show ?case
        proof (cases "j = i")
          case True
          with Cons.prems x have "r = old" using only by auto
          with True x Cons False same show ?thesis by auto
        next
          case False
          with x Cons show ?thesis by auto
        qed
      qed
      then show "filter (\<lambda>(i, r). inv_customer_id r = k) (invoices ?db1)
          = filter (\<lambda>(i, r). inv_customer_id r = k) (invoices db)"
        by simp
    qed
    finally show ?thesis using assms(2) by simp
  qed
qed

text \<open>
  Claim C5.  After every create, update or delete of an invoice, each customer's
  \<open>total_orders\<close>, \<open>total_spent\<close> and \<open>last_order_date\<close> are to equal the count and the sum
  of that customer's paid invoices and the latest issue date of all of that customer's
  invoices.

  Creation, deletion and an update that keeps the invoice's customer preserve this (the
  three lemmas above).  An update that moves an invoice to another customer does not: the trigger recomputes the customer of the new row only.
  Starting from a table in which both customers are right, moving the paid invoice \<open>i1\<close>
  from A to B leaves A with one order, 100.00 spent and a last order date, although A has
  no invoice left.
\<close>

theorem customer_totals_stale_after_reassignment:
  "customer_consistent rollup0 ''A'' \<and> customer_consistent rollup0 ''B''
   \<and> update_invoice ''i1'' (\<lambda>r. r\<lparr>inv_customer_id := ''B''\<rparr>) rollup0 = Inr rollup1
   \<and> customer_consistent rollup1 ''B''
   \<and> \<not> customer_consistent rollup1 ''A''
   \<and> customers rollup1 ''A''
       = Some \<lparr>cust_name = ''Ann'', total_orders = 1, total_spent = 10000,
               last_order_date = Some 5\<rparr>
   \<and> count_paid ''A'' rollup1 = 0 \<and> sum_paid ''A'' rollup1 = 0
   \<and> max_issue_date ''A'' rollup1 = None"
  by (simp add: rollup0_def rollup1_def rollup_defs update_invoice_def fun_upd_twist)

end
